theory Spec2Isabelle
  imports Complex_Main "HOL-Library.AList" "HOL-Library.List_Lexorder" "HOL-Library.Char_ord"
    "HOL-Library.Log_Nat"
begin

section \<open>Smart card payment backend: values, documents and the record store\<close>

text \<open>
  The service (\<^verbatim>\<open>src/main.py\<close>) keeps all durable state in three MongoDB
  collections and talks to a payment gateway and to an SMS provider
  (\<^verbatim>\<open>src/utils/sms_utils.py\<close>).

  Modelling decisions, valid for the whole development:
  \<^item> a document, a request body of type \<^verbatim>\<open>dict\<close> and a response dictionary are
    association lists from field names to scalar values, in insertion order, as Python
    dictionaries and BSON documents are;
  \<^item> a finite number, a Python \<^verbatim>\<open>int\<close> or \<^verbatim>\<open>float\<close>, is \<open>Num x\<close> with its
    exact rational value \<open>x\<close>; the infinities and NaN are values of their own. A
    Python operation on floats gives the exact result rounded to the nearest double,
    ties to even, as IEEE 754 arithmetic does. The sign of zero and the difference
    between the integer 30 and the float 30.0 are not kept. The store's own addition
    (\<^verbatim>\<open>$inc\<close>) is taken as exact on finite numbers. The amount of a request is a
    finite number;
  \<^item> every exception of the source is a value: a handler returns the store it leaves
    behind together with either what it raises or its response;
  \<^item> the gateway, the SMS provider, the clock, the environment variable and the
    rendering of numbers, dates and object identifiers as text are parameters
    (record \<open>env\<close>);
  \<^item> each request is handled alone (no interleaving of requests).
\<close>

datatype val = Null | Str string | Num rat | Inf bool | NaN | Oid nat | Time nat

text \<open>\<open>Inf True\<close> is plus infinity, \<open>Inf False\<close> minus infinity.\<close>

type_synonym doc = "(string \<times> val) list"

datatype py_exn =
    KeyError string
  | TypeError
  | AttributeError
  | OverflowError
  | ValueError
  | WriteError
  | ValidationError
  | ProviderError string

text \<open>
  \<open>HTTPException status text e\<close>: the status code, the literal part of the detail
  string and, where the source appends \<^verbatim>\<open>str(e)\<close> of a caught exception, that
  exception.
\<close>

datatype http_exception = HTTPException nat string "py_exn option"

datatype raised = Http http_exception | Uncaught py_exn

text \<open>\<^verbatim>\<open>d.get(k)\<close>, \<^verbatim>\<open>d.get(k, default)\<close> and \<^verbatim>\<open>d[k]\<close>.\<close>

definition dict_get :: "doc \<Rightarrow> string \<Rightarrow> val" where
  "dict_get d k = (case map_of d k of None \<Rightarrow> Null | Some v \<Rightarrow> v)"

definition dict_get_default :: "doc \<Rightarrow> string \<Rightarrow> val \<Rightarrow> val" where
  "dict_get_default d k dflt = (case map_of d k of None \<Rightarrow> dflt | Some v \<Rightarrow> v)"

definition subscript :: "doc \<Rightarrow> string \<Rightarrow> py_exn + val" where
  "subscript d k = (case map_of d k of None \<Rightarrow> Inl (KeyError k) | Some v \<Rightarrow> Inr v)"

subsection \<open>Floating point\<close>

text \<open>
  \<open>exponent m\<close>, for a positive \<open>m\<close>, is the integer \<open>e\<close> with
  \<open>2 powi e \<le> m < 2 powi (e + 1)\<close>. \<open>round_double x\<close> is the double nearest to
  \<open>x\<close>: a significand of 53 bits, the spacing \<open>2 powi (- 1074)\<close> for magnitudes
  below \<open>2 powi (- 1022)\<close>, ties to the even significand, and an infinity once the
  rounded magnitude reaches \<open>2 ^ 1024\<close>.
\<close>

definition exponent :: "rat \<Rightarrow> int" where
  "exponent m = (if 1 \<le> m then bitlen \<lfloor>m\<rfloor> - 1 else - bitlen (\<lceil>1 / m\<rceil> - 1))"

definition round_half_even :: "rat \<Rightarrow> int" where
  "round_half_even y =
     (let f = \<lfloor>y\<rfloor>; r = y - of_int f
      in if r < 1 / 2 then f else if 1 / 2 < r then f + 1 else if even f then f else f + 1)"

definition round_double :: "rat \<Rightarrow> val" where
  "round_double x =
     (if x = 0 then Num 0
      else let k = max (exponent \<bar>x\<bar> - 52) (- 1074);
               r = of_int (round_half_even (\<bar>x\<bar> / 2 powi k)) * 2 powi k
           in if 2 ^ 1024 \<le> r then Inf (0 < x) else Num (if 0 < x then r else - r))"

definition is_double :: "rat \<Rightarrow> bool" where
  "is_double x = (round_double x = Num x)"

text \<open>
  \<^verbatim>\<open>float(x)\<close>, also the conversion of an operand of a float operation: a finite
  number is rounded to the nearest double (a double is left as it is), and an
  integer too large for a double raises OverflowError.
\<close>

fun to_float :: "val \<Rightarrow> py_exn + val" where
  "to_float (Num a) = (case round_double a of Inf s \<Rightarrow> Inl OverflowError | v \<Rightarrow> Inr v)"
| "to_float (Inf s) = Inr (Inf s)"
| "to_float NaN = Inr NaN"
| "to_float _ = Inl TypeError"

text \<open>Subtraction and multiplication of two floats.\<close>

fun float_sub :: "val \<Rightarrow> val \<Rightarrow> val" where
  "float_sub (Num a) (Num b) = round_double (a - b)"
| "float_sub (Num a) (Inf t) = Inf (\<not> t)"
| "float_sub (Inf s) (Num b) = Inf s"
| "float_sub (Inf s) (Inf t) = (if s = t then NaN else Inf s)"
| "float_sub _ _ = NaN"

fun float_mul :: "val \<Rightarrow> val \<Rightarrow> val" where
  "float_mul (Num a) (Num b) = round_double (a * b)"
| "float_mul (Num a) (Inf t) = (if a = 0 then NaN else Inf ((0 < a) = t))"
| "float_mul (Inf s) (Num b) = (if b = 0 then NaN else Inf (s = (0 < b)))"
| "float_mul (Inf s) (Inf t) = Inf (s = t)"
| "float_mul _ _ = NaN"

text \<open>
  Python's \<^verbatim>\<open>a < b\<close>: exact on numbers, false when a NaN is compared with a number,
  TypeError between values of different kinds.
\<close>

fun py_less :: "val \<Rightarrow> val \<Rightarrow> py_exn + bool" where
  "py_less (Num a) (Num b) = Inr (a < b)"
| "py_less (Num a) (Inf t) = Inr t"
| "py_less (Inf s) (Num b) = Inr (\<not> s)"
| "py_less (Inf s) (Inf t) = Inr (\<not> s \<and> t)"
| "py_less NaN (Num b) = Inr False"
| "py_less NaN (Inf t) = Inr False"
| "py_less NaN NaN = Inr False"
| "py_less (Num a) NaN = Inr False"
| "py_less (Inf s) NaN = Inr False"
| "py_less (Str a) (Str b) = Inr (a < b)"
| "py_less (Time a) (Time b) = Inr (a < b)"
| "py_less (Oid a) (Oid b) = Inr (a < b)"
| "py_less _ _ = Inl TypeError"

text \<open>
  Python's \<^verbatim>\<open>a - b\<close> and \<^verbatim>\<open>a * b\<close> where one operand is a float: the other
  operand is converted, and the operation is the float one.
\<close>

definition py_sub :: "val \<Rightarrow> val \<Rightarrow> py_exn + val" where
  "py_sub a b =
     (case to_float a of
        Inl x \<Rightarrow> Inl x
      | Inr fa \<Rightarrow> (case to_float b of Inl x \<Rightarrow> Inl x | Inr fb \<Rightarrow> Inr (float_sub fa fb)))"

definition py_mul :: "val \<Rightarrow> val \<Rightarrow> py_exn + val" where
  "py_mul a b =
     (case to_float a of
        Inl x \<Rightarrow> Inl x
      | Inr fa \<Rightarrow> (case to_float b of Inl x \<Rightarrow> Inl x | Inr fb \<Rightarrow> Inr (float_mul fa fb)))"

text \<open>
  Python's \<^verbatim>\<open>int(x)\<close> on a float: truncation towards zero; OverflowError on an
  infinity, ValueError on NaN.
\<close>

definition trunc_zero :: "rat \<Rightarrow> int" where
  "trunc_zero x = (if 0 \<le> x then \<lfloor>x\<rfloor> else \<lceil>x\<rceil>)"

fun py_int :: "val \<Rightarrow> py_exn + int" where
  "py_int (Num x) = Inr (trunc_zero x)"
| "py_int (Inf s) = Inl OverflowError"
| "py_int NaN = Inl ValueError"
| "py_int _ = Inl TypeError"

subsection \<open>The record store\<close>

text \<open>
  A collection is the list of its documents in insertion order. The equality filter
  \<^verbatim>\<open>{k: v}\<close> of MongoDB matches a document whose field \<open>k\<close> equals \<open>v\<close>; the
  filter value null also matches a document without the field.
\<close>

definition matches :: "string \<Rightarrow> val \<Rightarrow> doc \<Rightarrow> bool" where
  "matches k v d = (case map_of d k of None \<Rightarrow> v = Null | Some u \<Rightarrow> u = v)"

definition find_one :: "doc list \<Rightarrow> string \<Rightarrow> val \<Rightarrow> doc option" where
  "find_one c k v = List.find (matches k v) c"

text \<open>
  \<^verbatim>\<open>if not student\<close>: Python takes None and the empty dictionary as absent.
\<close>

definition truthy :: "doc option \<Rightarrow> doc option" where
  "truthy r = (case r of None \<Rightarrow> None | Some d \<Rightarrow> if d = [] then None else Some d)"

text \<open>\<^verbatim>\<open>update_one(filter, {"$set": fields})\<close>: the first matching document is updated.\<close>

definition mongo_set :: "(string \<times> val) list \<Rightarrow> doc \<Rightarrow> doc" where
  "mongo_set fields d = fold (\<lambda>(k, v). AList.update k v) fields d"

fun update_one :: "doc list \<Rightarrow> string \<Rightarrow> val \<Rightarrow> (doc \<Rightarrow> doc) \<Rightarrow> doc list" where
  "update_one [] k v f = []"
| "update_one (d # ds) k v f =
     (if matches k v d then f d # ds else d # update_one ds k v f)"

text \<open>
  \<^verbatim>\<open>{"$inc": {k: a}}\<close> adds to a numeric field, creates a missing field with the value
  \<open>a\<close>, and is refused by the store for anything that is not a number.
\<close>

fun is_number :: "val \<Rightarrow> bool" where
  "is_number (Num x) = True"
| "is_number (Inf s) = True"
| "is_number NaN = True"
| "is_number _ = False"

fun bson_add :: "val \<Rightarrow> val \<Rightarrow> val option" where
  "bson_add (Num x) (Num a) = Some (Num (x + a))"
| "bson_add (Num x) (Inf t) = Some (Inf t)"
| "bson_add (Inf s) (Num a) = Some (Inf s)"
| "bson_add (Inf s) (Inf t) = Some (if s = t then Inf s else NaN)"
| "bson_add x a = (if is_number x \<and> is_number a then Some NaN else None)"

definition mongo_inc :: "string \<Rightarrow> val \<Rightarrow> doc \<Rightarrow> py_exn + doc" where
  "mongo_inc k a d =
     (if \<not> is_number a then Inl WriteError
      else (case map_of d k of
              None \<Rightarrow> Inr (AList.update k a d)
            | Some x \<Rightarrow>
               (case bson_add x a of
                  None \<Rightarrow> Inl WriteError
                | Some y \<Rightarrow> Inr (AList.update k y d))))"

text \<open>
  \<^verbatim>\<open>find_one_and_update(filter, update, return_document=True)\<close>: the first matching
  document is updated and returned as it is after the update; None when nothing
  matches; a refused update changes nothing.
\<close>

fun find_one_and_update ::
  "doc list \<Rightarrow> string \<Rightarrow> val \<Rightarrow> (doc \<Rightarrow> py_exn + doc) \<Rightarrow> py_exn + (doc list \<times> doc option)" where
  "find_one_and_update [] k v f = Inr ([], None)"
| "find_one_and_update (d # ds) k v f =
     (if matches k v d
      then (case f d of Inl x \<Rightarrow> Inl x | Inr d' \<Rightarrow> Inr (d' # ds, Some d'))
      else (case find_one_and_update ds k v f of
              Inl x \<Rightarrow> Inl x
            | Inr (ds', r) \<Rightarrow> Inr (d # ds', r)))"

record world =
  students_collection :: "doc list"
  vendors_collection :: "doc list"
  transactions_collection :: "doc list"
  object_ids :: nat
  gateway_orders :: "(int \<times> string \<times> int \<times> doc) list"

text \<open>
  \<open>object_ids\<close> counts the ObjectIds generated so far; \<open>gateway_orders\<close> is the list
  of order requests sent to the gateway, each as \<open>(amount, currency, payment_capture,
  notes)\<close>.

  \<^verbatim>\<open>transactions_collection.insert_one(d)\<close>: the driver adds a fresh \<^verbatim>\<open>_id\<close> to
  the dictionary when it has none, and the document is appended.
\<close>

definition insert_one :: "world \<Rightarrow> doc \<Rightarrow> world \<times> doc" where
  "insert_one w d =
     (if map_of d ''_id'' = None
      then (let d' = d @ [(''_id'', Oid (object_ids w))]
            in (w\<lparr>transactions_collection := transactions_collection w @ [d'],
                  object_ids := Suc (object_ids w)\<rparr>, d'))
      else (w\<lparr>transactions_collection := transactions_collection w @ [d]\<rparr>, d))"

subsection \<open>Collaborators\<close>

record env =
  now :: nat
  strftime :: "nat \<Rightarrow> string"
  str_num :: "rat \<Rightarrow> string"
  str_time :: "nat \<Rightarrow> string"
  str_oid :: "nat \<Rightarrow> string"
  RAZORPAY_KEY_ID :: "string option"
  order_create :: "(int \<times> string \<times> int \<times> doc) \<Rightarrow> py_exn + val"
  verify_payment_signature :: "val \<Rightarrow> val \<Rightarrow> val \<Rightarrow> py_exn option"
  twilio_Client :: "py_exn option"
  services_create :: "string \<Rightarrow> py_exn + string"
  verifications_create :: "string \<Rightarrow> string \<Rightarrow> string \<Rightarrow> py_exn + string"
  verification_checks_create :: "string \<Rightarrow> string \<Rightarrow> string \<Rightarrow> py_exn + string"

text \<open>
  \<open>now\<close> is \<^verbatim>\<open>datetime.datetime.now()\<close> of the request, \<open>strftime\<close> its rendering
  with \<^verbatim>\<open>"%d/%m/%Y, %H:%M:%S"\<close>. \<open>order_create\<close> is the gateway's answer to an
  order request: the \<^verbatim>\<open>id\<close> of the order, or the exception it raises.
  \<open>verify_payment_signature\<close> gives the exception raised for an invalid signature,
  None for a valid one. \<open>twilio_Client\<close> is the exception raised by building the
  provider's client, if any; \<open>services_create friendly_name\<close> gives the service sid,
  \<open>verifications_create service_sid to channel\<close> and
  \<open>verification_checks_create service_sid to code\<close> give the reported status.
\<close>

text \<open>\<^verbatim>\<open>str(x)\<close>, also what an f-string writes for \<open>x\<close>.\<close>

fun py_str :: "env \<Rightarrow> val \<Rightarrow> string" where
  "py_str e Null = ''None''"
| "py_str e (Str s) = s"
| "py_str e (Num x) = str_num e x"
| "py_str e (Inf s) = (if s then ''inf'' else ''-inf'')"
| "py_str e NaN = ''nan''"
| "py_str e (Oid n) = str_oid e n"
| "py_str e (Time t) = str_time e t"

text \<open>The rupee sign U+20B9, in UTF-8.\<close>

definition rupee :: string where
  "rupee = [CHR 0xE2, CHR 0x82, CHR 0xB9]"

section \<open>Notification bridge (sms_utils.py)\<close>

text \<open>
  \<open>send_payment_notification_try\<close> is the body of the \<^verbatim>\<open>try\<close> block: it builds
  the client, creates a verification service and sends a verification to the phone
  number over the channel \<^verbatim>\<open>sms\<close>. The message is not passed to the provider.
  \<open>send_payment_notification\<close> is the function with its \<^verbatim>\<open>except Exception\<close>
  clause, which returns False.
\<close>

definition send_payment_notification_try :: "env \<Rightarrow> string \<Rightarrow> string \<Rightarrow> py_exn + bool" where
  "send_payment_notification_try e phone_number message =
     (case twilio_Client e of
        Some x \<Rightarrow> Inl x
      | None \<Rightarrow>
       (case services_create e ''Smart Card Payment System'' of
          Inl x \<Rightarrow> Inl x
        | Inr service_sid \<Rightarrow>
         (case verifications_create e service_sid phone_number ''sms'' of
            Inl x \<Rightarrow> Inl x
          | Inr status \<Rightarrow> Inr True)))"

definition send_payment_notification :: "env \<Rightarrow> string \<Rightarrow> string \<Rightarrow> py_exn + bool" where
  "send_payment_notification e phone_number message =
     (case send_payment_notification_try e phone_number message of
        Inl x \<Rightarrow> Inr False
      | Inr b \<Rightarrow> Inr b)"

definition verify_otp_try :: "env \<Rightarrow> string \<Rightarrow> string \<Rightarrow> string \<Rightarrow> py_exn + bool" where
  "verify_otp_try e phone_number otp_code service_sid =
     (case twilio_Client e of
        Some x \<Rightarrow> Inl x
      | None \<Rightarrow>
       (case verification_checks_create e service_sid phone_number otp_code of
          Inl x \<Rightarrow> Inl x
        | Inr status \<Rightarrow> Inr (status = ''approved'')))"

definition verify_otp :: "env \<Rightarrow> string \<Rightarrow> string \<Rightarrow> string \<Rightarrow> py_exn + bool" where
  "verify_otp e phone_number otp_code service_sid =
     (case verify_otp_try e phone_number otp_code service_sid of
        Inl x \<Rightarrow> Inr False
      | Inr b \<Rightarrow> Inr b)"

definition format_recharge_message :: "env \<Rightarrow> val \<Rightarrow> val \<Rightarrow> val \<Rightarrow> string" where
  "format_recharge_message e amt vendor_name student_name =
     ''Payment Alert: '' @ rupee @ py_str e amt @ '' recharged to '' @ py_str e vendor_name
       @ '' for student '' @ py_str e student_name @ ''.''"

definition format_purchase_message :: "env \<Rightarrow> val \<Rightarrow> val \<Rightarrow> val \<Rightarrow> string" where
  "format_purchase_message e amt vendor_name student_name =
     ''Payment Alert: Your child '' @ py_str e student_name @ '' made a purchase of '' @ rupee
       @ py_str e amt @ '' at '' @ py_str e vendor_name @ ''.''"

section \<open>Payment flow controller (main.py)\<close>

record Parent =
  phone :: "string option"
  name :: "string option"

text \<open>Validation of an \<^verbatim>\<open>Optional[str]\<close> field of the \<^verbatim>\<open>Parent\<close> model.\<close>

fun optional_str :: "val \<Rightarrow> py_exn + string option" where
  "optional_str Null = Inr None"
| "optional_str (Str s) = Inr (Some s)"
| "optional_str _ = Inl ValidationError"

definition get_parent_by_student_id :: "world \<Rightarrow> val \<Rightarrow> py_exn + Parent option" where
  "get_parent_by_student_id w sid =
     (case truthy (find_one (students_collection w) ''student_id'' sid) of
        None \<Rightarrow> Inr None
      | Some student \<Rightarrow>
         if map_of student ''parent_phone'' = None then Inr None
         else (case optional_str (dict_get student ''parent_phone'') of
                 Inl x \<Rightarrow> Inl x
               | Inr ph \<Rightarrow>
                  (case optional_str (dict_get_default student ''parent_name'' (Str ''Parent'')) of
                     Inl x \<Rightarrow> Inl x
                   | Inr nm \<Rightarrow> Inr (Some \<lparr>phone = ph, name = nm\<rparr>))))"

text \<open>
  The notification block that the three payment handlers share, with the formatter
  of the handler as a parameter: look the parent up; when there is one with a
  non-empty phone, format the message from the amount, \<^verbatim>\<open>vendor["name"]\<close> and
  \<^verbatim>\<open>student["name"]\<close> and call \<open>send_payment_notification\<close>, whose result is dropped.
\<close>

definition notify_parent ::
  "env \<Rightarrow> world \<Rightarrow> val \<Rightarrow> (env \<Rightarrow> val \<Rightarrow> val \<Rightarrow> val \<Rightarrow> string) \<Rightarrow> val \<Rightarrow> doc \<Rightarrow> doc \<Rightarrow> py_exn + unit" where
  "notify_parent e w sid format_message amt vendor student =
     (case get_parent_by_student_id w sid of
        Inl x \<Rightarrow> Inl x
      | Inr None \<Rightarrow> Inr ()
      | Inr (Some parent) \<Rightarrow>
         (case phone parent of
            None \<Rightarrow> Inr ()
          | Some ph \<Rightarrow>
             if ph = [] then Inr ()
             else (case subscript vendor ''name'' of
                     Inl x \<Rightarrow> Inl x
                   | Inr vendor_name \<Rightarrow>
                      (case subscript student ''name'' of
                         Inl x \<Rightarrow> Inl x
                       | Inr student_name \<Rightarrow>
                          (case send_payment_notification e ph
                                  (format_message e amt vendor_name student_name) of
                             Inl x \<Rightarrow> Inl x
                           | Inr sent \<Rightarrow> Inr ())))))"

text \<open>
  The clauses that close a handler's outer \<^verbatim>\<open>try\<close>: an HTTPException is raised
  again, any other exception becomes status 500 with \<^verbatim>\<open>str(e)\<close> after the given
  prefix.
\<close>

definition except_clauses :: "string \<Rightarrow> world \<times> (raised + 'a) \<Rightarrow> world \<times> (raised + 'a)" where
  "except_clauses prefix r =
     (case r of
        (w, Inl (Uncaught x)) \<Rightarrow> (w, Inl (Http (HTTPException 500 prefix (Some x))))
      | (w, Inl (Http he)) \<Rightarrow> (w, Inl (Http he))
      | (w, Inr a) \<Rightarrow> (w, Inr a))"

subsection \<open>process_student_payment\<close>

record StudentPaymentRequest =
  student_id :: string
  vendor_id :: string
  amount :: rat
  description :: string
  password :: string

text \<open>
  The field \<open>amount\<close> is declared \<^verbatim>\<open>float\<close>: what the handler reads is a double
  (\<open>is_double\<close>), the one nearest to the number written in the request.
\<close>

definition purchase_transaction :: "env \<Rightarrow> StudentPaymentRequest \<Rightarrow> val \<Rightarrow> val \<Rightarrow> doc" where
  "purchase_transaction e payment new_student_balance new_vendor_balance =
     [(''student_id'', Str (student_id payment)),
      (''vendor_id'', Str (vendor_id payment)),
      (''amount'', Num (amount payment)),
      (''type'', Str ''purchase''),
      (''description'', Str (description payment)),
      (''status'', Str ''completed''),
      (''timestamp'', Time (now e)),
      (''formatted_date'', Str (strftime e (now e))),
      (''student_balance'', new_student_balance),
      (''vendor_balance'', new_vendor_balance)]"

definition process_student_payment_try ::
  "env \<Rightarrow> world \<Rightarrow> StudentPaymentRequest \<Rightarrow> world \<times> (raised + doc)" where
  "process_student_payment_try e w payment =
   (case truthy (find_one (students_collection w) ''student_id'' (Str (student_id payment))) of
      None \<Rightarrow> (w, Inl (Http (HTTPException 404 ''Student not found'' None)))
    | Some student \<Rightarrow>
    if Str (password payment) \<noteq> dict_get student ''password''
    then (w, Inl (Http (HTTPException 401 ''Invalid student password'' None)))
    else
    (case subscript student ''balance'' of
       Inl x \<Rightarrow> (w, Inl (Uncaught x))
     | Inr student_balance \<Rightarrow>
    (case py_less student_balance (Num (amount payment)) of
       Inl x \<Rightarrow> (w, Inl (Uncaught x))
     | Inr True \<Rightarrow> (w, Inl (Http (HTTPException 400 ''Insufficient balance'' None)))
     | Inr False \<Rightarrow>
    (case truthy (find_one (vendors_collection w) ''vendor_id'' (Str (vendor_id payment))) of
       None \<Rightarrow> (w, Inl (Http (HTTPException 404 ''Vendor not found'' None)))
     | Some vendor \<Rightarrow>
    (case py_less (dict_get_default vendor ''balance'' (Num 0)) (Num (amount payment)) of
       Inl x \<Rightarrow> (w, Inl (Uncaught x))
     | Inr True \<Rightarrow> (w, Inl (Http (HTTPException 400 ''Insufficient vendor balance'' None)))
     | Inr False \<Rightarrow>
    (case py_sub student_balance (Num (amount payment)) of
       Inl x \<Rightarrow> (w, Inl (Uncaught x))
     | Inr new_student_balance \<Rightarrow>
    (case py_sub (dict_get_default vendor ''balance'' (Num 0)) (Num (amount payment)) of
       Inl x \<Rightarrow> (w, Inl (Uncaught x))
     | Inr new_vendor_balance \<Rightarrow>
    (let w1 = w\<lparr>students_collection :=
                  update_one (students_collection w) ''student_id'' (Str (student_id payment))
                    (mongo_set [(''balance'', new_student_balance)])\<rparr>;
         w2 = w1\<lparr>vendors_collection :=
                  update_one (vendors_collection w1) ''vendor_id'' (Str (vendor_id payment))
                    (mongo_set [(''balance'', new_vendor_balance)])\<rparr>;
         (w3, transaction) =
            insert_one w2 (purchase_transaction e payment new_student_balance new_vendor_balance);
         notified = notify_parent e w3 (Str (student_id payment)) format_purchase_message
                      (Num (amount payment)) vendor student
     in (case subscript transaction ''_id'' of
           Inl x \<Rightarrow> (w3, Inl (Uncaught x))
         | Inr tid \<Rightarrow>
            (w3, Inr [(''status'', Str ''success''),
                      (''message'', Str ''Payment processed successfully''),
                      (''student_balance'', new_student_balance),
                      (''vendor_balance'', new_vendor_balance),
                      (''transaction_date'', Str (strftime e (now e))),
                      (''transaction_id'', Str (py_str e tid))]))))))))))"

text \<open>
  In the \<^verbatim>\<open>let\<close> above, \<open>notified\<close> is the notification block inside its own
  \<^verbatim>\<open>try\<close>: whatever it raises is printed and dropped, and the store is not
  touched by it.
\<close>

definition process_student_payment ::
  "env \<Rightarrow> world \<Rightarrow> StudentPaymentRequest \<Rightarrow> world \<times> (raised + doc)" where
  "process_student_payment e w payment =
     except_clauses [] (process_student_payment_try e w payment)"

subsection \<open>create_recharge_order\<close>

text \<open>
  Modelled from the spec: the request model \<^verbatim>\<open>WalletRechargeRequest\<close> is declared
  in \<^verbatim>\<open>models.py\<close>, which is not among the sources. The spec gives the operation
  the arguments student_id, vendor_id and amount, the fields the handler reads; the
  amount is a finite number in the major currency unit, which the handler converts
  with \<^verbatim>\<open>float(...)\<close> before it multiplies.
\<close>

record WalletRechargeRequest =
  recharge_student_id :: string
  recharge_vendor_id :: string
  recharge_amount :: rat

definition order_doc :: "env \<Rightarrow> WalletRechargeRequest \<Rightarrow> val \<Rightarrow> doc" where
  "order_doc e request order_id =
     [(''order_id'', order_id),
      (''student_id'', Str (recharge_student_id request)),
      (''vendor_id'', Str (recharge_vendor_id request)),
      (''amount'', Num (recharge_amount request)),
      (''status'', Str ''pending''),
      (''type'', Str ''recharge''),
      (''created_at'', Time (now e)),
      (''formatted_date'', Str (strftime e (now e)))]"

definition create_recharge_order_try ::
  "env \<Rightarrow> world \<Rightarrow> WalletRechargeRequest \<Rightarrow> world \<times> (raised + doc)" where
  "create_recharge_order_try e w request =
   (case truthy (find_one (students_collection w) ''student_id''
                   (Str (recharge_student_id request))) of
      None \<Rightarrow> (w, Inl (Http (HTTPException 404 ''Student not found'' None)))
    | Some student \<Rightarrow>
    (case truthy (find_one (vendors_collection w) ''vendor_id''
                    (Str (recharge_vendor_id request))) of
       None \<Rightarrow> (w, Inl (Http (HTTPException 404 ''Vendor not found'' None)))
     | Some vendor \<Rightarrow>
    (case to_float (Num (recharge_amount request)) of
       Inl x \<Rightarrow> (w, Inl (Uncaught x))
     | Inr float_amount \<Rightarrow>
    (case py_mul float_amount (Num 100) of
       Inl x \<Rightarrow> (w, Inl (Uncaught x))
     | Inr product \<Rightarrow>
    (case py_int product of
       Inl x \<Rightarrow> (w, Inl (Uncaught x))
     | Inr order_amount \<Rightarrow>
    (let order_currency = ''INR'';
         order_data = (order_amount, order_currency, 1,
                       [(''student_id'', Str (recharge_student_id request)),
                        (''vendor_id'', Str (recharge_vendor_id request))]);
         w1 = w\<lparr>gateway_orders := gateway_orders w @ [order_data]\<rparr>
     in (case order_create e order_data of
           Inl x \<Rightarrow>
             (w1, Inl (Http (HTTPException 500 ''Failed to create payment order: '' (Some x))))
         | Inr order_id \<Rightarrow>
            (let (w2, inserted) = insert_one w1 (order_doc e request order_id)
             in (case notify_parent e w2 (Str (recharge_student_id request))
                        format_recharge_message (Num (recharge_amount request)) vendor student of
                   Inl x \<Rightarrow> (w2, Inl (Uncaught x))
                 | Inr u \<Rightarrow>
                    (w2, Inr [(''id'', order_id),
                              (''amount'', Num (of_int order_amount)),
                              (''currency'', Str order_currency),
                              (''key'', (case RAZORPAY_KEY_ID e of
                                           None \<Rightarrow> Null
                                         | Some k \<Rightarrow> Str k))]))))))))))"

definition create_recharge_order ::
  "env \<Rightarrow> world \<Rightarrow> WalletRechargeRequest \<Rightarrow> world \<times> (raised + doc)" where
  "create_recharge_order e w request =
     except_clauses ''Internal server error: '' (create_recharge_order_try e w request)"

subsection \<open>verify_recharge_payment\<close>

text \<open>
  The request body is any dictionary. \<^verbatim>\<open>payment['student_id']\<close>,
  \<^verbatim>\<open>payment['vendor_id']\<close> and \<^verbatim>\<open>order['amount']\<close> are read more than once from
  dictionaries that do not change in between; each is bound once, at its first read.
\<close>

definition verify_recharge_payment_try ::
  "env \<Rightarrow> world \<Rightarrow> doc \<Rightarrow> world \<times> (raised + doc)" where
  "verify_recharge_payment_try e w payment =
   (case verify_payment_signature e (dict_get payment ''razorpay_payment_id'')
           (dict_get payment ''razorpay_order_id'') (dict_get payment ''razorpay_signature'') of
      Some x \<Rightarrow> (w, Inl (Http (HTTPException 400 ''Payment verification failed: '' (Some x))))
    | None \<Rightarrow>
    (case subscript payment ''razorpay_order_id'' of
       Inl x \<Rightarrow> (w, Inl (Uncaught x))
     | Inr order_id \<Rightarrow>
    (case truthy (find_one (transactions_collection w) ''order_id'' order_id) of
       None \<Rightarrow> (w, Inl (Http (HTTPException 404 ''Order not found'' None)))
     | Some order \<Rightarrow>
    (case subscript payment ''student_id'' of
       Inl x \<Rightarrow> (w, Inl (Uncaught x))
     | Inr sid \<Rightarrow>
    (case truthy (find_one (students_collection w) ''student_id'' sid) of
       None \<Rightarrow> (w, Inl (Http (HTTPException 404 ''Student not found'' None)))
     | Some student \<Rightarrow>
    (case subscript payment ''vendor_id'' of
       Inl x \<Rightarrow> (w, Inl (Uncaught x))
     | Inr vid \<Rightarrow>
    (case truthy (find_one (vendors_collection w) ''vendor_id'' vid) of
       None \<Rightarrow> (w, Inl (Http (HTTPException 404 ''Vendor not found'' None)))
     | Some vendor \<Rightarrow>
    (case subscript order ''amount'' of
       Inl x \<Rightarrow> (w, Inl (Uncaught x))
     | Inr order_amount \<Rightarrow>
    (case find_one_and_update (students_collection w) ''student_id'' sid
            (mongo_inc ''wallet_balance'' order_amount) of
       Inl x \<Rightarrow> (w, Inl (Uncaught x))
     | Inr (students', student_update) \<Rightarrow>
    (let w1 = w\<lparr>students_collection := students'\<rparr>
     in (case find_one_and_update (vendors_collection w1) ''vendor_id'' vid
                (mongo_inc ''balance'' order_amount) of
           Inl x \<Rightarrow> (w1, Inl (Uncaught x))
         | Inr (vendors', vendor_update) \<Rightarrow>
    (let w2 = w1\<lparr>vendors_collection := vendors'\<rparr>
     in (case subscript payment ''razorpay_payment_id'' of
           Inl x \<Rightarrow> (w2, Inl (Uncaught x))
         | Inr payment_id \<Rightarrow>
    (let w3 = w2\<lparr>transactions_collection :=
                   update_one (transactions_collection w2) ''order_id'' order_id
                     (mongo_set [(''status'', Str ''completed''),
                                 (''payment_id'', payment_id),
                                 (''completed_at'', Time (now e)),
                                 (''formatted_date'', Str (strftime e (now e)))])\<rparr>;
         notified = notify_parent e w3 sid format_recharge_message order_amount vendor student
     in (case student_update of
           None \<Rightarrow> (w3, Inl (Uncaught AttributeError))
         | Some updated \<Rightarrow>
            (w3, Inr [(''status'', Str ''success''),
                      (''message'', Str ''Payment verified and processed successfully''),
                      (''new_balance'',
                         dict_get_default updated ''wallet_balance'' (Num 0))]))))))))))))))))"

definition verify_recharge_payment :: "env \<Rightarrow> world \<Rightarrow> doc \<Rightarrow> world \<times> (raised + doc)" where
  "verify_recharge_payment e w payment =
     except_clauses [] (verify_recharge_payment_try e w payment)"

subsection \<open>Queries\<close>

text \<open>
  The query handlers have no \<^verbatim>\<open>try\<close>: an exception other than HTTPException
  leaves them uncaught. They do not write to the store.
\<close>

definition get_student :: "env \<Rightarrow> world \<Rightarrow> string \<Rightarrow> raised + doc" where
  "get_student e w sid =
     (case truthy (find_one (students_collection w) ''student_id'' (Str sid)) of
        None \<Rightarrow> Inl (Http (HTTPException 404 ''Student not found'' None))
      | Some student \<Rightarrow>
         (case subscript student ''_id'' of
            Inl x \<Rightarrow> Inl (Uncaught x)
          | Inr i \<Rightarrow> Inr (AList.update ''_id'' (Str (py_str e i)) student)))"

text \<open>
  \<^verbatim>\<open>find(filter, sort=[(key, -1)])\<close>: the matching documents in descending order of
  the key. The store compares values of different types by their type (null, then
  numbers, strings, object identifiers, dates) and takes a missing field as null.
  The order it gives to documents with equal keys is not specified; here they keep
  their insertion order.
\<close>

fun bson_type_order :: "val \<Rightarrow> nat" where
  "bson_type_order Null = 2"
| "bson_type_order (Num x) = 3"
| "bson_type_order (Inf s) = 3"
| "bson_type_order NaN = 3"
| "bson_type_order (Str s) = 4"
| "bson_type_order (Oid n) = 8"
| "bson_type_order (Time t) = 10"

fun bson_less :: "val \<Rightarrow> val \<Rightarrow> bool" where
  "bson_less (Num a) (Num b) = (a < b)"
| "bson_less (Num a) (Inf t) = t"
| "bson_less (Inf s) (Num b) = (\<not> s)"
| "bson_less (Inf s) (Inf t) = (\<not> s \<and> t)"
| "bson_less NaN (Num b) = True"
| "bson_less NaN (Inf t) = True"
| "bson_less (Num a) NaN = False"
| "bson_less (Inf s) NaN = False"
| "bson_less NaN NaN = False"
| "bson_less (Str a) (Str b) = (a < b)"
| "bson_less (Oid a) (Oid b) = (a < b)"
| "bson_less (Time a) (Time b) = (a < b)"
| "bson_less a b = (bson_type_order a < bson_type_order b)"

fun insert_desc :: "string \<Rightarrow> doc \<Rightarrow> doc list \<Rightarrow> doc list" where
  "insert_desc k d [] = [d]"
| "insert_desc k d (x # xs) =
     (if bson_less (dict_get d k) (dict_get x k) then x # insert_desc k d xs else d # x # xs)"

definition find_sorted_desc :: "doc list \<Rightarrow> string \<Rightarrow> val \<Rightarrow> string \<Rightarrow> doc list" where
  "find_sorted_desc c k v by_key = foldr (insert_desc by_key) (filter (matches k v) c) []"

definition format_transaction :: "env \<Rightarrow> doc \<Rightarrow> py_exn + doc" where
  "format_transaction e transaction =
     (case subscript transaction ''_id'' of
        Inl x \<Rightarrow> Inl x
      | Inr i \<Rightarrow>
     (case subscript transaction ''student_id'' of
        Inl x \<Rightarrow> Inl x
      | Inr sid \<Rightarrow>
     (case subscript transaction ''amount'' of
        Inl x \<Rightarrow> Inl x
      | Inr a \<Rightarrow>
     (case subscript transaction ''status'' of
        Inl x \<Rightarrow> Inl x
      | Inr st \<Rightarrow>
         Inr [(''_id'', Str (py_str e i)),
              (''date'', dict_get_default transaction ''formatted_date'' (Str ''N/A'')),
              (''student_id'', sid),
              (''amount'', Str (rupee @ py_str e a)),
              (''description'', dict_get_default transaction ''description'' (Str ''Transaction'')),
              (''status'', st)]))))"

fun formatted_transactions :: "env \<Rightarrow> doc list \<Rightarrow> py_exn + doc list" where
  "formatted_transactions e [] = Inr []"
| "formatted_transactions e (t # ts) =
     (case format_transaction e t of
        Inl x \<Rightarrow> Inl x
      | Inr f \<Rightarrow>
         (case formatted_transactions e ts of
            Inl x \<Rightarrow> Inl x
          | Inr fs \<Rightarrow> Inr (f # fs)))"

text \<open>The result is the list under the key \<^verbatim>\<open>transactions\<close> of the response.\<close>

definition get_student_transactions :: "env \<Rightarrow> world \<Rightarrow> string \<Rightarrow> raised + doc list" where
  "get_student_transactions e w sid =
     (case truthy (find_one (students_collection w) ''student_id'' (Str sid)) of
        None \<Rightarrow> Inl (Http (HTTPException 404 ''Student not found'' None))
      | Some student \<Rightarrow>
         (case formatted_transactions e
                 (find_sorted_desc (transactions_collection w) ''student_id'' (Str sid)
                    ''created_at'') of
            Inl x \<Rightarrow> Inl (Uncaught x)
          | Inr fs \<Rightarrow> Inr fs))"

section \<open>A concrete campus\<close>

text \<open>
  One student \<open>S1\<close> with balance 100 and one vendor \<open>V1\<close> with balance 50, a
  gateway that answers every order with the identifier \<open>order_1\<close> and accepts the
  signature \<open>sig_ok\<close> only, and an SMS provider that works.
\<close>

definition campus_env :: env where
  "campus_env =
     \<lparr>now = 7,
      strftime = (\<lambda>t. if t = 1 then ''01/01/2025, 10:00:01''
                      else if t = 2 then ''01/01/2025, 10:00:02'' else ''01/01/2025, 10:00:07''),
      str_num = (\<lambda>x. ''num''),
      str_time = (\<lambda>t. ''time''),
      str_oid = (\<lambda>n. if n = 2 then ''oid2'' else if n = 3 then ''oid3'' else ''oid0''),
      RAZORPAY_KEY_ID = Some ''rzp_test_key'',
      order_create = (\<lambda>data. Inr (Str ''order_1'')),
      verify_payment_signature =
        (\<lambda>payment_id order_id signature.
           if signature = Str ''sig_ok'' then None else Some (ProviderError ''bad signature'')),
      twilio_Client = None,
      services_create = (\<lambda>friendly_name. Inr ''VA1''),
      verifications_create = (\<lambda>service_sid to channel. Inr ''pending''),
      verification_checks_create =
        (\<lambda>service_sid to code.
           if code = ''123456'' then Inr ''approved'' else Inr ''pending'')\<rparr>"

definition student_S1 :: doc where
  "student_S1 =
     [(''_id'', Oid 0), (''student_id'', Str ''S1''), (''name'', Str ''Asha''),
      (''balance'', Num 100), (''wallet_balance'', Num 40), (''password'', Str ''secret''),
      (''parent_phone'', Str ''+911234567890'')]"

definition vendor_V1 :: doc where
  "vendor_V1 =
     [(''_id'', Oid 1), (''vendor_id'', Str ''V1''), (''name'', Str ''Canteen''),
      (''upi_id'', Str ''canteen@upi''), (''balance'', Num 50)]"

definition campus :: world where
  "campus =
     \<lparr>students_collection = [student_S1],
      vendors_collection = [vendor_V1],
      transactions_collection = [],
      object_ids = 2,
      gateway_orders = []\<rparr>"

definition purchase :: "rat \<Rightarrow> StudentPaymentRequest" where
  "purchase a =
     \<lparr>student_id = ''S1'', vendor_id = ''V1'', amount = a, description = ''lunch'',
      password = ''secret''\<rparr>"

definition recharge :: "rat \<Rightarrow> WalletRechargeRequest" where
  "recharge a =
     \<lparr>recharge_student_id = ''S1'', recharge_vendor_id = ''V1'', recharge_amount = a\<rparr>"

text \<open>The campus after a recharge order of 200 has been created and not yet verified.\<close>

definition pending_order :: doc where
  "pending_order =
     [(''order_id'', Str ''order_1''), (''student_id'', Str ''S1''), (''vendor_id'', Str ''V1''),
      (''amount'', Num 200), (''status'', Str ''pending''), (''type'', Str ''recharge''),
      (''created_at'', Time 7), (''formatted_date'', Str ''01/01/2025, 10:00:07''),
      (''_id'', Oid 2)]"

definition campus_pending :: world where
  "campus_pending =
     campus\<lparr>transactions_collection := [pending_order],
            object_ids := 3,
            gateway_orders :=
              [(20000, ''INR'', 1, [(''student_id'', Str ''S1''), (''vendor_id'', Str ''V1'')])]\<rparr>"

text \<open>
  A verification request for the given order; it also carries an amount of its own,
  which differs from the amount of the pending order.
\<close>

definition verification :: "string \<Rightarrow> doc" where
  "verification order_id =
     [(''razorpay_payment_id'', Str ''pay_1''), (''razorpay_order_id'', Str order_id),
      (''razorpay_signature'', Str ''sig_ok''), (''student_id'', Str ''S1''),
      (''vendor_id'', Str ''V1''), (''amount'', Num 5)]"

text \<open>
  The campus after a recharge order of 200 created at time 1 and a purchase of 30
  made at time 2, both by student \<open>S1\<close>.
\<close>

definition campus_history :: world where
  "campus_history =
     fst (process_student_payment (campus_env\<lparr>now := 2\<rparr>)
            (fst (create_recharge_order (campus_env\<lparr>now := 1\<rparr>) campus (recharge 200)))
            (purchase 30))"

text \<open>
  The doubles nearest to 100.1, 30.2 and 0.29, and the campus where the balance of
  \<open>S1\<close> is the double nearest to 100.1.
\<close>

definition double_100_1 :: rat where
  "double_100_1 = 3521955646092083 / 35184372088832"

definition double_30_2 :: rat where
  "double_30_2 = 8500544296661811 / 281474976710656"

definition double_0_29 :: rat where
  "double_0_29 = 5224175567749775 / 18014398509481984"

definition campus_decimal :: world where
  "campus_decimal =
     campus\<lparr>students_collection :=
              [AList.update ''balance'' (Num double_100_1) student_S1]\<rparr>"

lemmas campus_defs = campus_def student_S1_def vendor_V1_def purchase_def find_one_def matches_def
  recharge_def pending_order_def campus_pending_def verification_def

lemmas handler_defs = truthy_def dict_get_def dict_get_default_def subscript_def
  except_clauses_def insert_one_def notify_parent_def get_parent_by_student_id_def
  send_payment_notification_def send_payment_notification_try_def Let_def


section \<open>Facts about rounding\<close>

text \<open>
  The exponent is the one of the binade that holds the number, and a number whose
  quotient by the spacing of its binade is within a half of an integer \<open>n\<close> rounds to
  \<open>n\<close> times that spacing. The roundings used on the campus follow.
\<close>

lemma exponent_bounds:
  assumes "0 < m"
  shows "2 powi exponent m \<le> m \<and> m < 2 powi (exponent m + 1)"
proof (cases "1 \<le> m")
  case True
  let ?f = "\<lfloor>m\<rfloor>"
  have f: "0 < ?f" using True by simp
  have b1: "1 \<le> bitlen ?f"
    using f bitlen_eq_zero_iff [of ?f] bitlen_nonneg [of ?f] by linarith
  from bitlen_bounds [OF f]
  have lo: "2 ^ nat (bitlen ?f - 1) \<le> ?f" and hi: "?f < 2 ^ nat (bitlen ?f)"
    by auto
  have e: "exponent m = bitlen ?f - 1" using True by (simp add: exponent_def)
  have "(2::rat) powi (bitlen ?f - 1) = 2 ^ nat (bitlen ?f - 1)"
    using b1 by (simp add: power_int_def)
  also have "\<dots> = of_int (2 ^ nat (bitlen ?f - 1))" by simp
  also have "\<dots> \<le> of_int ?f" using lo by (simp only: of_int_le_iff)
  also have "\<dots> \<le> m" by simp
  finally have 1: "2 powi exponent m \<le> m" by (simp add: e)
  have "?f + 1 \<le> 2 ^ nat (bitlen ?f)" using hi by simp
  then have "(of_int (?f + 1) :: rat) \<le> of_int (2 ^ nat (bitlen ?f))"
    by (simp only: of_int_le_iff)
  moreover have "m < of_int (?f + 1)" by linarith
  ultimately have "m < of_int (2 ^ nat (bitlen ?f))" by linarith
  also have "\<dots> = 2 powi (bitlen ?f)" using b1 by (simp add: power_int_def)
  finally have 2: "m < 2 powi (exponent m + 1)" by (simp add: e)
  from 1 2 show ?thesis ..
next
  case False
  let ?t = "\<lceil>1 / m\<rceil> - 1"
  let ?b = "bitlen ?t"
  have y: "1 < 1 / m" using assms False by simp
  then have t: "0 < ?t" by linarith
  have b1: "1 \<le> ?b" using t bitlen_eq_zero_iff [of ?t] bitlen_nonneg [of ?t] by linarith
  from bitlen_bounds [OF t] have lo: "2 ^ nat (?b - 1) \<le> ?t" and hi: "?t < 2 ^ nat ?b"
    by auto
  have e: "exponent m = - ?b" using False by (simp add: exponent_def)
  have "\<lceil>1 / m\<rceil> \<le> 2 ^ nat ?b" using hi by simp
  then have "(of_int \<lceil>1 / m\<rceil> :: rat) \<le> of_int (2 ^ nat ?b)"
    by (simp only: of_int_le_iff)
  then have "(of_int \<lceil>1 / m\<rceil> :: rat) \<le> 2 ^ nat ?b" by simp
  with le_of_int_ceiling [of "1 / m"] have "1 / m \<le> 2 ^ nat ?b" by linarith
  then have "1 / m \<le> 2 powi ?b" using b1 by (simp add: power_int_def)
  then have "1 \<le> 2 powi ?b * m" using assms by (simp add: field_simps)
  then have "inverse (2 powi ?b) \<le> m"
    by (simp add: field_simps)
  then have 1: "2 powi exponent m \<le> m"
    by (simp add: e power_int_minus)
  have "(of_int (2 ^ nat (?b - 1)) :: rat) \<le> of_int ?t"
    using lo by (simp only: of_int_le_iff)
  then have "(2::rat) ^ nat (?b - 1) \<le> of_int ?t" by simp
  moreover have "of_int ?t < 1 / m" by linarith
  ultimately have "2 ^ nat (?b - 1) < 1 / m" by linarith
  then have "2 powi (?b - 1) < 1 / m" using b1 by (simp add: power_int_def)
  then have "2 powi (?b - 1) * m < 1" using assms by (simp add: field_simps)
  then have "m < inverse (2 powi (?b - 1))"
    by (simp add: field_simps)
  then have "m < 2 powi (- (?b - 1))" by (simp only: power_int_minus)
  moreover have "- (?b - 1) = exponent m + 1" by (simp add: e)
  ultimately have 2: "m < 2 powi (exponent m + 1)" by (simp only:)
  from 1 2 show ?thesis ..
qed

lemma exponent_unique:
  assumes "2 powi e \<le> m" and "m < 2 powi (e + 1)"
  shows "exponent m = e"
proof -
  have "0 < (2::rat) powi e" by simp
  then have m: "0 < m" using assms(1) by linarith
  from exponent_bounds [OF m]
  have lo: "2 powi exponent m \<le> m" and hi: "m < 2 powi (exponent m + 1)"
    by auto
  have "\<not> exponent m < e"
  proof
    assume "exponent m < e"
    then have "(2::rat) powi (exponent m + 1) \<le> 2 powi e" by (intro power_int_increasing) auto
    then show False using hi assms(1) by linarith
  qed
  moreover have "\<not> e < exponent m"
  proof
    assume "e < exponent m"
    then have "(2::rat) powi (e + 1) \<le> 2 powi exponent m" by (intro power_int_increasing) auto
    then show False using lo assms(2) by linarith
  qed
  ultimately show ?thesis by linarith
qed

lemma round_half_even_near:
  assumes "\<bar>y - of_int n\<bar> < 1 / 2"
  shows "round_half_even y = n"
proof -
  have "\<lfloor>y\<rfloor> = n \<or> \<lfloor>y\<rfloor> = n - 1" using assms by linarith
  then show ?thesis
  proof
    assume f: "\<lfloor>y\<rfloor> = n"
    then have "y - of_int \<lfloor>y\<rfloor> < 1 / 2" using assms by linarith
    then show ?thesis using f by (simp add: round_half_even_def Let_def)
  next
    assume f: "\<lfloor>y\<rfloor> = n - 1"
    then have "1 / 2 < y - of_int \<lfloor>y\<rfloor>" using assms by (simp add: abs_if split: if_splits)
    then show ?thesis using f by (simp add: round_half_even_def Let_def)
  qed
qed

lemma round_double_positive:
  assumes "2 powi e \<le> x" and "x < 2 powi (e + 1)"
    and "k = max (e - 52) (- 1074)"
    and "\<bar>x / 2 powi k - of_int n\<bar> < 1 / 2"
    and "of_int n * 2 powi k < (2::rat) ^ 1024"
  shows "round_double x = Num (of_int n * 2 powi k)"
proof -
  have "0 < (2::rat) powi e" by simp
  then have x: "0 < x" using assms(1) by linarith
  have e: "exponent \<bar>x\<bar> = e" using x assms(1,2) by (simp add: exponent_unique)
  have n: "round_half_even (\<bar>x\<bar> / 2 powi k) = n"
    using x assms(4) by (simp add: round_half_even_near)
  show ?thesis
    using x e n assms(3,5) by (simp add: round_double_def Let_def not_le del: power_numeral)
qed

lemma round_double_20: "round_double 20 = Num 20"
  using round_double_positive [of 4 20 "- 48" "20 * 2 ^ 48"] by simp

lemma round_double_30: "round_double 30 = Num 30"
  using round_double_positive [of 4 30 "- 48" "30 * 2 ^ 48"] by simp

lemma round_double_50: "round_double 50 = Num 50"
  using round_double_positive [of 5 50 "- 47" "50 * 2 ^ 47"] by simp

lemma round_double_70: "round_double 70 = Num 70"
  using round_double_positive [of 6 70 "- 46" "70 * 2 ^ 46"] by simp

lemma round_double_100: "round_double 100 = Num 100"
  using round_double_positive [of 6 100 "- 46" "100 * 2 ^ 46"] by simp

lemma round_double_200: "round_double 200 = Num 200"
  using round_double_positive [of 7 200 "- 45" "200 * 2 ^ 45"] by simp

lemma round_double_20000: "round_double 20000 = Num 20000"
  using round_double_positive [of 14 20000 "- 38" "20000 * 2 ^ 38"] by simp

lemma round_double_100_1:
  "round_double (3521955646092083 / 35184372088832) = Num (3521955646092083 / 35184372088832)"
  using round_double_positive [of 6 "3521955646092083 / 35184372088832" "- 46" 7043911292184166] by simp

lemma round_double_30_2:
  "round_double (8500544296661811 / 281474976710656) = Num (8500544296661811 / 281474976710656)"
  using round_double_positive [of 4 "8500544296661811 / 281474976710656" "- 48" 8500544296661811] by simp

lemma round_double_69_9:
  "round_double (19675100872074853 / 281474976710656) = Num (4918775218018713 / 70368744177664)"
  using round_double_positive [of 6 "19675100872074853 / 281474976710656" "- 46" 4918775218018713]
  by simp

lemma round_double_19_8:
  "round_double (5573204538870989 / 281474976710656) = Num (5573204538870989 / 281474976710656)"
  using round_double_positive [of 4 "5573204538870989 / 281474976710656" "- 48" 5573204538870989]
  by simp

lemma round_double_0_29:
  "round_double (29 / 100) = Num (5224175567749775 / 18014398509481984)"
  using round_double_positive [of "- 2" "29 / 100" "- 54" 5224175567749775] by simp

lemma round_double_0_29_double:
  "round_double (5224175567749775 / 18014398509481984)
     = Num (5224175567749775 / 18014398509481984)"
  using round_double_positive
    [of "- 2" "5224175567749775 / 18014398509481984" "- 54" 5224175567749775]
  by simp

lemma round_double_28_99:
  "round_double (130604389193744375 / 4503599627370496) = Num (8162774324609023 / 281474976710656)"
  using round_double_positive [of 4 "130604389193744375 / 4503599627370496" "- 48" 8162774324609023]
  by simp

lemma truncate_28_99: "trunc_zero (8162774324609023 / 281474976710656) = 28"
  by (simp add: trunc_zero_def floor_eq_iff)

lemmas rounding = round_double_20 round_double_30 round_double_50 round_double_70
  round_double_100 round_double_200 round_double_20000 round_double_100_1 round_double_30_2
  round_double_69_9 round_double_19_8 round_double_0_29 round_double_0_29_double
  round_double_28_99 truncate_28_99

section \<open>Facts about the record store\<close>

lemma find_one_matches: "find_one c k v = Some d \<Longrightarrow> matches k v d"
  by (auto simp: find_one_def find_Some_iff)

lemma matches_nonempty: "matches k v d \<Longrightarrow> v \<noteq> Null \<Longrightarrow> d \<noteq> []"
  by (auto simp: matches_def)

lemma truthy_found: "r = Some d \<Longrightarrow> d \<noteq> [] \<Longrightarrow> truthy r = Some d"
  by (simp add: truthy_def)

lemma matches_update_other:
  "k' \<noteq> k \<Longrightarrow> matches k v (AList.update k' x d) = matches k v d"
  by (simp add: matches_def update_conv')

lemma find_one_update_one:
  "find_one c k v = Some d \<Longrightarrow> matches k v (f d) \<Longrightarrow>
   find_one (update_one c k v f) k v = Some (f d)"
  by (induction c) (auto simp: find_one_def)

section \<open>Purchases\<close>

text \<open>
  C4. A purchase by an existing student with the right password and a balance below
  the amount is refused with status 400, detail "Insufficient balance", whatever the
  vendor collection holds, and the store is left as it was.
\<close>

theorem insufficient_balance:
  assumes "find_one (students_collection w) ''student_id'' (Str (student_id payment)) = Some student"
    and "map_of student ''password'' = Some (Str (password payment))"
    and "map_of student ''balance'' = Some (Num b)"
    and "b < amount payment"
  shows "process_student_payment e w payment =
           (w, Inl (Http (HTTPException 400 ''Insufficient balance'' None)))"
proof -
  have "student \<noteq> []"
    using assms(2) by auto
  then have "truthy (find_one (students_collection w) ''student_id'' (Str (student_id payment)))
               = Some student"
    using assms(1) by (simp add: truthy_found)
  then show ?thesis
    using assms(2-4)
    by (simp add: process_student_payment_def process_student_payment_try_def
        except_clauses_def dict_get_def subscript_def)
qed

theorem insufficient_balance_witness:
  "process_student_payment campus_env campus (purchase 130) =
     (campus, Inl (Http (HTTPException 400 ''Insufficient balance'' None)))"
proof -
  have 1: "find_one (students_collection campus) ''student_id'' (Str (student_id (purchase 130)))
             = Some student_S1"
    by (simp add: campus_defs)
  have 2: "map_of student_S1 ''password'' = Some (Str (password (purchase 130)))"
    by (simp add: campus_defs)
  have 3: "map_of student_S1 ''balance'' = Some (Num 100)"
    by (simp add: campus_defs)
  have 4: "100 < amount (purchase 130)"
    by (simp add: campus_defs)
  show ?thesis
    using insufficient_balance [OF 1 2 3 4] .
qed

text \<open>
  C5. A purchase by an existing student with the right password and enough balance,
  at an existing vendor whose balance (0 when the field is absent) is below the
  amount, is refused with status 400, detail "Insufficient vendor balance"; the
  store is left as it was, so no balance changes and no transaction is appended.
\<close>

theorem insufficient_vendor_balance:
  assumes "find_one (students_collection w) ''student_id'' (Str (student_id payment)) = Some student"
    and "map_of student ''password'' = Some (Str (password payment))"
    and "map_of student ''balance'' = Some (Num b)"
    and "amount payment \<le> b"
    and "find_one (vendors_collection w) ''vendor_id'' (Str (vendor_id payment)) = Some vendor"
    and "dict_get_default vendor ''balance'' (Num 0) = Num vb"
    and "vb < amount payment"
  shows "process_student_payment e w payment =
           (w, Inl (Http (HTTPException 400 ''Insufficient vendor balance'' None)))"
proof -
  have "student \<noteq> []"
    using assms(2) by auto
  then have s: "truthy (find_one (students_collection w) ''student_id'' (Str (student_id payment)))
               = Some student"
    using assms(1) by (simp add: truthy_found)
  have "vendor \<noteq> []"
    using find_one_matches [OF assms(5)] by (rule matches_nonempty) simp
  then have v: "truthy (find_one (vendors_collection w) ''vendor_id'' (Str (vendor_id payment)))
               = Some vendor"
    using assms(5) by (simp add: truthy_found)
  show ?thesis
    using s v assms(2-4,6,7)
    by (simp add: process_student_payment_def process_student_payment_try_def
        except_clauses_def dict_get_def subscript_def)
qed

theorem insufficient_vendor_balance_witness:
  "process_student_payment campus_env campus (purchase 60) =
     (campus, Inl (Http (HTTPException 400 ''Insufficient vendor balance'' None)))"
proof -
  have 1: "find_one (students_collection campus) ''student_id'' (Str (student_id (purchase 60)))
             = Some student_S1"
    by (simp add: campus_defs)
  have 2: "map_of student_S1 ''password'' = Some (Str (password (purchase 60)))"
    by (simp add: campus_defs)
  have 3: "map_of student_S1 ''balance'' = Some (Num 100)"
    by (simp add: campus_defs)
  have 4: "amount (purchase 60) \<le> 100"
    by (simp add: campus_defs)
  have 5: "find_one (vendors_collection campus) ''vendor_id'' (Str (vendor_id (purchase 60)))
             = Some vendor_V1"
    by (simp add: campus_defs)
  have 6: "dict_get_default vendor_V1 ''balance'' (Num 0) = Num 50"
    by (simp add: campus_defs dict_get_default_def)
  have 7: "50 < amount (purchase 60)"
    by (simp add: campus_defs)
  show ?thesis
    using insufficient_vendor_balance [OF 1 2 3 4 5 6 7] .
qed

text \<open>
  The store and the response after a purchase that passes every check, for the
  differences that the two subtractions give.
\<close>

lemma purchase_succeeds:
  assumes "find_one (students_collection w) ''student_id'' (Str (student_id payment)) = Some student"
    and "map_of student ''password'' = Some (Str (password payment))"
    and "map_of student ''balance'' = Some (Num b)"
    and "amount payment \<le> b"
    and "find_one (vendors_collection w) ''vendor_id'' (Str (vendor_id payment)) = Some vendor"
    and "dict_get_default vendor ''balance'' (Num 0) = Num vb"
    and "amount payment \<le> vb"
    and "py_sub (Num b) (Num (amount payment)) = Inr new_student_balance"
    and "py_sub (Num vb) (Num (amount payment)) = Inr new_vendor_balance"
  shows "process_student_payment e w payment =
     (w\<lparr>students_collection :=
          update_one (students_collection w) ''student_id'' (Str (student_id payment))
            (AList.update ''balance'' new_student_balance),
        vendors_collection :=
          update_one (vendors_collection w) ''vendor_id'' (Str (vendor_id payment))
            (AList.update ''balance'' new_vendor_balance),
        transactions_collection := transactions_collection w @
          [purchase_transaction e payment new_student_balance new_vendor_balance
             @ [(''_id'', Oid (object_ids w))]],
        object_ids := Suc (object_ids w)\<rparr>,
      Inr [(''status'', Str ''success''),
           (''message'', Str ''Payment processed successfully''),
           (''student_balance'', new_student_balance),
           (''vendor_balance'', new_vendor_balance),
           (''transaction_date'', Str (strftime e (now e))),
           (''transaction_id'', Str (str_oid e (object_ids w)))])"
proof -
  have "student \<noteq> []"
    using assms(2) by auto
  then have s: "truthy (find_one (students_collection w) ''student_id'' (Str (student_id payment)))
               = Some student"
    using assms(1) by (simp add: truthy_found)
  have "vendor \<noteq> []"
    using find_one_matches [OF assms(5)] by (rule matches_nonempty) simp
  then have v: "truthy (find_one (vendors_collection w) ''vendor_id'' (Str (vendor_id payment)))
               = Some vendor"
    using assms(5) by (simp add: truthy_found)
  have m: "mongo_set [(k, x)] = AList.update k x" for k x
    by (simp add: mongo_set_def fun_eq_iff)
  show ?thesis
    using s v assms(2-4,6-9)
    by (simp add: process_student_payment_def process_student_payment_try_def
        except_clauses_def dict_get_def subscript_def m insert_one_def purchase_transaction_def
        Let_def)
qed

lemma py_sub_doubles:
  "is_double a \<Longrightarrow> is_double b \<Longrightarrow> py_sub (Num a) (Num b) = Inr (round_double (a - b))"
  by (simp add: py_sub_def is_double_def)

text \<open>
  C1, as the code has it. When a purchase of amount A succeeds (student and vendor
  exist, right password, both balances at least A, balances and amount doubles),
  the student's stored balance is the old one minus A as the float subtraction
  gives it, the double nearest to the exact difference, and so is the vendor's;
  exactly one transaction is appended, of type "purchase" and status "completed",
  whose fields student_balance and vendor_balance hold these two stored values.
\<close>

theorem purchase_stores_rounded_differences:
  assumes "find_one (students_collection w) ''student_id'' (Str (student_id payment)) = Some student"
    and "map_of student ''password'' = Some (Str (password payment))"
    and "map_of student ''balance'' = Some (Num b)"
    and "amount payment \<le> b"
    and "find_one (vendors_collection w) ''vendor_id'' (Str (vendor_id payment)) = Some vendor"
    and "dict_get_default vendor ''balance'' (Num 0) = Num vb"
    and "amount payment \<le> vb"
    and "is_double (amount payment)" and "is_double b" and "is_double vb"
  shows "\<exists>w' response student' vendor' transaction.
           process_student_payment e w payment = (w', Inr response)
         \<and> find_one (students_collection w') ''student_id'' (Str (student_id payment)) = Some student'
         \<and> map_of student' ''balance'' = Some (round_double (b - amount payment))
         \<and> find_one (vendors_collection w') ''vendor_id'' (Str (vendor_id payment)) = Some vendor'
         \<and> map_of vendor' ''balance'' = Some (round_double (vb - amount payment))
         \<and> transactions_collection w' = transactions_collection w @ [transaction]
         \<and> map_of transaction ''type'' = Some (Str ''purchase'')
         \<and> map_of transaction ''status'' = Some (Str ''completed'')
         \<and> map_of transaction ''student_balance'' = Some (round_double (b - amount payment))
         \<and> map_of transaction ''vendor_balance'' = Some (round_double (vb - amount payment))"
proof -
  let ?sb = "round_double (b - amount payment)" and ?vb = "round_double (vb - amount payment)"
  let ?t = "purchase_transaction e payment ?sb ?vb @ [(''_id'', Oid (object_ids w))]"
  have s: "find_one (update_one (students_collection w) ''student_id'' (Str (student_id payment))
             (AList.update ''balance'' ?sb)) ''student_id'' (Str (student_id payment))
           = Some (AList.update ''balance'' ?sb student)"
    using assms(1) find_one_matches [OF assms(1)]
    by (intro find_one_update_one) (simp_all add: matches_update_other)
  have v: "find_one (update_one (vendors_collection w) ''vendor_id'' (Str (vendor_id payment))
             (AList.update ''balance'' ?vb)) ''vendor_id'' (Str (vendor_id payment))
           = Some (AList.update ''balance'' ?vb vendor)"
    using assms(5) find_one_matches [OF assms(5)]
    by (intro find_one_update_one) (simp_all add: matches_update_other)
  have t: "map_of ?t ''type'' = Some (Str ''purchase'')"
    "map_of ?t ''status'' = Some (Str ''completed'')"
    "map_of ?t ''student_balance'' = Some ?sb"
    "map_of ?t ''vendor_balance'' = Some ?vb"
    by (simp_all add: purchase_transaction_def)
  have d: "py_sub (Num b) (Num (amount payment)) = Inr ?sb"
    "py_sub (Num vb) (Num (amount payment)) = Inr ?vb"
    using assms(8-10) by (simp_all add: py_sub_doubles)
  show ?thesis
    unfolding purchase_succeeds [OF assms(1-7) d]
    using s v t by (simp add: update_conv')
qed

theorem purchase_stores_rounded_differences_witness:
  "\<exists>w' response.
     process_student_payment campus_env campus (purchase 30) = (w', Inr response)
   \<and> map_of (the (find_one (students_collection w') ''student_id'' (Str ''S1''))) ''balance''
       = Some (Num 70)
   \<and> map_of (the (find_one (vendors_collection w') ''vendor_id'' (Str ''V1''))) ''balance''
       = Some (Num 20)
   \<and> map_of (last (transactions_collection w')) ''type'' = Some (Str ''purchase'')
   \<and> map_of (last (transactions_collection w')) ''status'' = Some (Str ''completed'')
   \<and> map_of (last (transactions_collection w')) ''student_balance'' = Some (Num 70)
   \<and> map_of (last (transactions_collection w')) ''vendor_balance'' = Some (Num 20)"
proof -
  have 1: "find_one (students_collection campus) ''student_id'' (Str (student_id (purchase 30)))
             = Some student_S1"
    by (simp add: campus_defs)
  have 2: "map_of student_S1 ''password'' = Some (Str (password (purchase 30)))"
    by (simp add: campus_defs)
  have 3: "map_of student_S1 ''balance'' = Some (Num 100)"
    by (simp add: campus_defs)
  have 4: "amount (purchase 30) \<le> 100"
    by (simp add: campus_defs)
  have 5: "find_one (vendors_collection campus) ''vendor_id'' (Str (vendor_id (purchase 30)))
             = Some vendor_V1"
    by (simp add: campus_defs)
  have 6: "dict_get_default vendor_V1 ''balance'' (Num 0) = Num 50"
    by (simp add: campus_defs dict_get_default_def)
  have 7: "amount (purchase 30) \<le> 50"
    by (simp add: campus_defs)
  have 8: "is_double (amount (purchase 30))" and 9: "is_double 100" and 10: "is_double 50"
    by (simp_all add: purchase_def is_double_def rounding)
  have s: "student_id (purchase 30) = ''S1''" "vendor_id (purchase 30) = ''V1''"
    "round_double (100 - amount (purchase 30)) = Num 70"
    "round_double (50 - amount (purchase 30)) = Num 20"
    by (simp_all add: purchase_def rounding)
  show ?thesis
    using purchase_stores_rounded_differences [OF 1 2 3 4 5 6 7 8 9 10, of campus_env]
    unfolding s by fastforce
qed

text \<open>
  C1, as stated with the exact difference, fails where the difference is not a
  double: with the balance 100.1 and the amount 30.2, both as doubles, the purchase
  succeeds and the stored balance and the snapshot are 4918775218018713 / 2 ^ 46
  (printed 69.89999999999999), which is not the balance minus the amount.
\<close>

theorem purchase_exact_difference_counterexample:
  "snd (process_student_payment campus_env campus_decimal (purchase double_30_2)) =
     Inr [(''status'', Str ''success''),
          (''message'', Str ''Payment processed successfully''),
          (''student_balance'', Num (4918775218018713 / 70368744177664)),
          (''vendor_balance'', Num (5573204538870989 / 281474976710656)),
          (''transaction_date'', Str ''01/01/2025, 10:00:07''),
          (''transaction_id'', Str ''oid2'')]
   \<and> map_of (the (find_one (students_collection
          (fst (process_student_payment campus_env campus_decimal (purchase double_30_2))))
          ''student_id'' (Str ''S1''))) ''balance''
       = Some (Num (4918775218018713 / 70368744177664))
   \<and> map_of (last (transactions_collection
          (fst (process_student_payment campus_env campus_decimal (purchase double_30_2)))))
          ''student_balance''
       = Some (Num (4918775218018713 / 70368744177664))
   \<and> double_100_1 - double_30_2 = 19675100872074853 / 281474976710656
   \<and> (4918775218018713 / 70368744177664 :: rat) \<noteq> 19675100872074853 / 281474976710656"
proof -
  let ?p = "purchase double_30_2"
  let ?s = "AList.update ''balance'' (Num double_100_1) student_S1"
  have 1: "find_one (students_collection campus_decimal) ''student_id'' (Str (student_id ?p))
             = Some ?s"
    by (simp add: campus_decimal_def campus_defs)
  have 2: "map_of ?s ''password'' = Some (Str (password ?p))"
    by (simp add: campus_defs)
  have 3: "map_of ?s ''balance'' = Some (Num double_100_1)"
    by (simp add: campus_defs)
  have 4: "amount ?p \<le> double_100_1"
    by (simp add: campus_defs double_100_1_def double_30_2_def)
  have 5: "find_one (vendors_collection campus_decimal) ''vendor_id'' (Str (vendor_id ?p))
             = Some vendor_V1"
    by (simp add: campus_decimal_def campus_defs)
  have 6: "dict_get_default vendor_V1 ''balance'' (Num 0) = Num 50"
    by (simp add: campus_defs dict_get_default_def)
  have 7: "amount ?p \<le> 50"
    by (simp add: campus_defs double_30_2_def)
  have 8: "py_sub (Num double_100_1) (Num (amount ?p))
             = Inr (Num (4918775218018713 / 70368744177664))"
    by (simp add: py_sub_def rounding purchase_def double_100_1_def double_30_2_def)
  have 9: "py_sub (Num 50) (Num (amount ?p)) = Inr (Num (5573204538870989 / 281474976710656))"
    by (simp add: py_sub_def rounding purchase_def double_30_2_def)
  show ?thesis
    unfolding purchase_succeeds [OF 1 2 3 4 5 6 7 8 9, of campus_env]
    by (simp add: campus_decimal_def campus_defs campus_env_def purchase_transaction_def
        double_100_1_def double_30_2_def)
qed

section \<open>Recharges\<close>

text \<open>The campus with a pending order is what creating a recharge order of 200 leaves.\<close>

lemma campus_pending_reached:
  "fst (create_recharge_order campus_env campus (recharge 200)) = campus_pending"
  by (simp add: create_recharge_order_def create_recharge_order_try_def campus_defs handler_defs
      py_mul_def rounding trunc_zero_def campus_env_def order_doc_def)




text \<open>
  C6. A verification request whose signature the gateway accepts and whose order
  identifier matches no stored transaction is refused with status 404, detail
  "Order not found", and the store is left as it was.
\<close>

theorem order_not_found:
  assumes "verify_payment_signature e (dict_get payment ''razorpay_payment_id'')
             (dict_get payment ''razorpay_order_id'') (dict_get payment ''razorpay_signature'') = None"
    and "map_of payment ''razorpay_order_id'' = Some order_id"
    and "find_one (transactions_collection w) ''order_id'' order_id = None"
  shows "verify_recharge_payment e w payment =
           (w, Inl (Http (HTTPException 404 ''Order not found'' None)))"
  using assms
  by (simp add: verify_recharge_payment_def verify_recharge_payment_try_def subscript_def
      truthy_def except_clauses_def)

theorem order_not_found_witness:
  "verify_recharge_payment campus_env campus_pending (verification ''order_9'') =
     (campus_pending, Inl (Http (HTTPException 404 ''Order not found'' None)))"
proof -
  have 1: "verify_payment_signature campus_env
             (dict_get (verification ''order_9'') ''razorpay_payment_id'')
             (dict_get (verification ''order_9'') ''razorpay_order_id'')
             (dict_get (verification ''order_9'') ''razorpay_signature'') = None"
    by (simp add: campus_env_def verification_def dict_get_def)
  have 2: "map_of (verification ''order_9'') ''razorpay_order_id'' = Some (Str ''order_9'')"
    by (simp add: verification_def)
  have 3: "find_one (transactions_collection campus_pending) ''order_id'' (Str ''order_9'') = None"
    by (simp add: campus_defs)
  show ?thesis
    using order_not_found [OF 1 2 3] .
qed




text \<open>
  C3. Creating a recharge order leaves the student and vendor collections, hence
  every balance, as they were, whatever the gateway and the notification do;
  verifying a recharge does change both collections (shown on the campus with a
  pending order).
\<close>

theorem recharge_order_keeps_balances:
  "students_collection (fst (create_recharge_order e w request)) = students_collection w
   \<and> vendors_collection (fst (create_recharge_order e w request)) = vendors_collection w
   \<and> students_collection
        (fst (verify_recharge_payment campus_env campus_pending (verification ''order_1'')))
       \<noteq> students_collection campus_pending
   \<and> vendors_collection
        (fst (verify_recharge_payment campus_env campus_pending (verification ''order_1'')))
       \<noteq> vendors_collection campus_pending"
proof -
  have c: "students_collection (fst (create_recharge_order e w request)) = students_collection w
     \<and> vendors_collection (fst (create_recharge_order e w request)) = vendors_collection w"
    by (simp add: create_recharge_order_def create_recharge_order_try_def except_clauses_def
        insert_one_def Let_def split: option.splits sum.splits raised.splits prod.splits)
  have v: "fst (verify_recharge_payment campus_env campus_pending (verification ''order_1'')) =
     campus_pending
       \<lparr>students_collection := [AList.update ''wallet_balance'' (Num 240) student_S1],
        vendors_collection := [AList.update ''balance'' (Num 250) vendor_V1],
        transactions_collection :=
          [mongo_set [(''status'', Str ''completed''), (''payment_id'', Str ''pay_1''),
                      (''completed_at'', Time 7),
                      (''formatted_date'', Str ''01/01/2025, 10:00:07'')] pending_order]\<rparr>"
    by (simp add: verify_recharge_payment_def verify_recharge_payment_try_def campus_defs
        handler_defs campus_env_def mongo_inc_def)
  show ?thesis
    unfolding v using c by (simp add: campus_defs)
qed

text \<open>
  C7. The order sent to the gateway is meant to carry the amount in minor units,
  the amount times 100 (the source: convert to paise). The handler computes
  \<^verbatim>\<open>int(float(amount) * 100)\<close>. For the amount 0.29 the float product is the
  double just below 29, which \<^verbatim>\<open>int\<close> cuts to 28: the gateway is sent 28 and the
  response says 28, where the amount times 100 is 29. It is so for the decimal
  0.29 and for the double nearest to it.
\<close>

theorem recharge_order_of_29_paise_sends_28:
  "recharge_amount (recharge (29 / 100)) * 100 = 29
   \<and> gateway_orders (fst (create_recharge_order campus_env campus (recharge (29 / 100)))) =
       [(28, ''INR'', 1, [(''student_id'', Str ''S1''), (''vendor_id'', Str ''V1'')])]
   \<and> snd (create_recharge_order campus_env campus (recharge (29 / 100))) =
       Inr [(''id'', Str ''order_1''), (''amount'', Num 28), (''currency'', Str ''INR''),
            (''key'', Str ''rzp_test_key'')]
   \<and> round_double (29 / 100) = Num double_0_29
   \<and> gateway_orders (fst (create_recharge_order campus_env campus (recharge double_0_29))) =
       [(28, ''INR'', 1, [(''student_id'', Str ''S1''), (''vendor_id'', Str ''V1'')])]
   \<and> snd (create_recharge_order campus_env campus (recharge double_0_29)) =
       Inr [(''id'', Str ''order_1''), (''amount'', Num 28), (''currency'', Str ''INR''),
            (''key'', Str ''rzp_test_key'')]"
  by (simp add: create_recharge_order_def create_recharge_order_try_def campus_defs
      handler_defs py_mul_def rounding campus_env_def order_doc_def double_0_29_def)

section \<open>Queries\<close>

text \<open>
  Every formatted transaction carries its amount as text: the rupee sign followed by
  \<^verbatim>\<open>str\<close> of the stored amount.
\<close>

lemma format_transaction_amount:
  "format_transaction e t = Inr f \<Longrightarrow>
   \<exists>a. map_of t ''amount'' = Some a \<and> map_of f ''amount'' = Some (Str (rupee @ py_str e a))"
  by (auto simp: format_transaction_def subscript_def split: option.splits)

lemma campus_history_transactions:
  "transactions_collection campus_history =
     [[(''order_id'', Str ''order_1''), (''student_id'', Str ''S1''), (''vendor_id'', Str ''V1''),
       (''amount'', Num 200), (''status'', Str ''pending''), (''type'', Str ''recharge''),
       (''created_at'', Time 1), (''formatted_date'', Str ''01/01/2025, 10:00:01''),
       (''_id'', Oid 2)],
      [(''student_id'', Str ''S1''), (''vendor_id'', Str ''V1''), (''amount'', Num 30),
       (''type'', Str ''purchase''), (''description'', Str ''lunch''),
       (''status'', Str ''completed''), (''timestamp'', Time 2),
       (''formatted_date'', Str ''01/01/2025, 10:00:02''), (''student_balance'', Num 70),
       (''vendor_balance'', Num 20), (''_id'', Oid 3)]]"
  by (simp add: campus_history_def create_recharge_order_def create_recharge_order_try_def
      process_student_payment_def process_student_payment_try_def campus_defs handler_defs
      campus_env_def order_doc_def purchase_transaction_def py_mul_def py_sub_def rounding
      trunc_zero_def mongo_set_def)

lemma campus_history_students:
  "students_collection campus_history = [AList.update ''balance'' (Num 70) student_S1]"
  by (simp add: campus_history_def create_recharge_order_def create_recharge_order_try_def
      process_student_payment_def process_student_payment_try_def campus_defs handler_defs
      campus_env_def order_doc_def purchase_transaction_def py_mul_def py_sub_def rounding
      trunc_zero_def mongo_set_def)

text \<open>
  C8. The student-transactions query is meant to list the student's transactions
  newest first, each amount as text behind the rupee sign. A purchase stores its
  time under the key \<open>timestamp\<close>, while the query sorts on \<open>created_at\<close>, which
  only recharge orders have. On the campus history the recharge order created at
  time 1 is therefore listed before the purchase made at time 2: oldest first.
\<close>

theorem student_transactions_oldest_first:
  "map (\<lambda>t. (map_of t ''type'', map_of t ''created_at'', map_of t ''timestamp''))
     (transactions_collection campus_history) =
     [(Some (Str ''recharge''), Some (Time 1), None),
      (Some (Str ''purchase''), None, Some (Time 2))]
   \<and> get_student_transactions campus_env campus_history ''S1'' =
       Inr [[(''_id'', Str ''oid2''), (''date'', Str ''01/01/2025, 10:00:01''),
             (''student_id'', Str ''S1''), (''amount'', Str (rupee @ ''num'')),
             (''description'', Str ''Transaction''), (''status'', Str ''pending'')],
            [(''_id'', Str ''oid3''), (''date'', Str ''01/01/2025, 10:00:02''),
             (''student_id'', Str ''S1''), (''amount'', Str (rupee @ ''num'')),
             (''description'', Str ''lunch''), (''status'', Str ''completed'')]]"
  by (simp add: get_student_transactions_def campus_history_students
      campus_history_transactions find_sorted_desc_def format_transaction_def campus_defs
      handler_defs campus_env_def)

section \<open>Notification bridge\<close>

text \<open>
  C9. For every phone number, message, code and service identifier and every
  behaviour of the provider, \<open>send_payment_notification\<close> and \<open>verify_otp\<close> return a
  boolean and raise nothing. The first returns True exactly when the client, the
  service and the verification were all created without an error, so every provider
  error gives False; the second returns True exactly when the client was built and
  the provider reported the status "approved", and False on every provider error.
\<close>

theorem notification_bridge_never_raises:
  "(\<exists>b. send_payment_notification e phone_number message = Inr b)
   \<and> (send_payment_notification e phone_number message = Inr True \<longleftrightarrow>
        twilio_Client e = None
        \<and> (\<exists>service_sid status.
              services_create e ''Smart Card Payment System'' = Inr service_sid
            \<and> verifications_create e service_sid phone_number ''sms'' = Inr status))
   \<and> (\<exists>b. verify_otp e phone_number otp_code service_sid = Inr b)
   \<and> (verify_otp e phone_number otp_code service_sid = Inr True \<longleftrightarrow>
        twilio_Client e = None
        \<and> verification_checks_create e service_sid phone_number otp_code = Inr ''approved'')"
  by (auto simp: send_payment_notification_def send_payment_notification_try_def
      verify_otp_def verify_otp_try_def split: option.splits sum.splits)

section \<open>Student lookup\<close>

text \<open>
  C10. For an existing student, \<open>get_student\<close> returns the stored document with the
  same fields in the same order; only the value of \<open>_id\<close> is replaced by its text.
  Every other field keeps its stored value, among them the plaintext password and
  both balance fields.
\<close>

theorem get_student_returns_whole_document:
  assumes "find_one (students_collection w) ''student_id'' (Str sid) = Some student"
    and "map_of student ''_id'' = Some i"
  shows "\<exists>response.
           get_student e w sid = Inr response
         \<and> map fst response = map fst student
         \<and> map_of response ''_id'' = Some (Str (py_str e i))
         \<and> (\<forall>k. k \<noteq> ''_id'' \<longrightarrow> map_of response k = map_of student k)
         \<and> map_of response ''password'' = map_of student ''password''
         \<and> map_of response ''balance'' = map_of student ''balance''
         \<and> map_of response ''wallet_balance'' = map_of student ''wallet_balance''"
proof -
  have "student \<noteq> []"
    using assms(2) by auto
  then have s: "truthy (find_one (students_collection w) ''student_id'' (Str sid)) = Some student"
    using assms(1) by (simp add: truthy_found)
  have k: "''_id'' \<in> set (map fst student)"
    using assms(2) by (auto dest: map_of_SomeD intro: rev_image_eqI)
  have g: "get_student e w sid = Inr (AList.update ''_id'' (Str (py_str e i)) student)"
    using s assms(2) by (simp add: get_student_def subscript_def)
  show ?thesis
    unfolding g using k by (simp add: update_conv' update_keys)
qed

theorem get_student_returns_whole_document_witness:
  "\<exists>response.
     get_student campus_env campus ''S1'' = Inr response
   \<and> map fst response = [''_id'', ''student_id'', ''name'', ''balance'', ''wallet_balance'',
                          ''password'', ''parent_phone'']
   \<and> map_of response ''_id'' = Some (Str ''oid0'')
   \<and> map_of response ''password'' = Some (Str ''secret'')
   \<and> map_of response ''balance'' = Some (Num 100)
   \<and> map_of response ''wallet_balance'' = Some (Num 40)"
proof -
  have 1: "find_one (students_collection campus) ''student_id'' (Str ''S1'') = Some student_S1"
    by (simp add: campus_defs)
  have 2: "map_of student_S1 ''_id'' = Some (Oid 0)"
    by (simp add: student_S1_def)
  have 3: "map fst student_S1 = [''_id'', ''student_id'', ''name'', ''balance'',
             ''wallet_balance'', ''password'', ''parent_phone'']"
    "map_of student_S1 ''password'' = Some (Str ''secret'')"
    "map_of student_S1 ''balance'' = Some (Num 100)"
    "map_of student_S1 ''wallet_balance'' = Some (Num 40)"
    "py_str campus_env (Oid 0) = ''oid0''"
    by (simp_all add: student_S1_def campus_env_def)
  show ?thesis
    using get_student_returns_whole_document [OF 1 2, of campus_env] unfolding 3 by auto
qed

end
